theory Spec2Isabelle
  imports Main
begin

chapter \<open>The embedding\<close>

section \<open>Errors\<close>

text \<open>
  The JavaScript errors the modelled functions raise or pass on. \<open>RecordDoesNotExist\<close> is
  the class of \<^verbatim>\<open>@cumulus/errors\<close>; \<open>Error\<close> stands for any other error object, with
  its message; \<open>AggregateError\<close> is what \<^verbatim>\<open>p-map\<close> rejects with when it was told
  not to stop on the first error.
\<close>

datatype js_error =
    RecordDoesNotExist string
  | Error string
  | AggregateError "js_error list"

section \<open>Newest execution ARN for a granule and a workflow (packages/db/src/lib/execution.ts)\<close>

text \<open>
  The three catalog tables the query reads. Every row carries the surrogate key
  \<open>cumulus_id\<close>; the join table \<open>granules_executions\<close> holds pairs of surrogate keys.
  The column type of \<open>executions.timestamp\<close> is declared outside this file of the
  repository, so it is a parameter: any linearly ordered type, the order being the one
  \<^verbatim>\<open>ORDER BY\<close> sorts by (where the column admits \<^verbatim>\<open>NULL\<close>, the database sorts it as
  larger than every timestamp, and it is the greatest element of this order). Rows with
  equal timestamps come in no fixed order; the model keeps them in table order.
\<close>

record 't execution_row =
  ex_cumulus_id :: nat
  ex_arn :: string
  ex_workflow_name :: string
  ex_timestamp :: 't

record granule_row =
  gr_cumulus_id :: nat
  gr_granule_id :: string

record granules_executions_row =
  ge_granule_cumulus_id :: nat
  ge_execution_cumulus_id :: nat

record 't catalog =
  tbl_executions :: "'t execution_row list"
  tbl_granulesExecutions :: "granules_executions_row list"
  tbl_granules :: "granule_row list"

text \<open>
  \<^verbatim>\<open>.orderBy('executions.timestamp', 'desc')\<close>: insertion into a list kept in
  descending order of the timestamp.
\<close>

fun insert_desc :: "'t::linorder execution_row \<Rightarrow> 't execution_row list \<Rightarrow> 't execution_row list" where
  "insert_desc e [] = [e]"
| "insert_desc e (x # xs) =
     (if ex_timestamp x \<le> ex_timestamp e then e # x # xs else x # insert_desc e xs)"

fun orderBy_timestamp_desc :: "'t::linorder execution_row list \<Rightarrow> 't execution_row list" where
  "orderBy_timestamp_desc [] = []"
| "orderBy_timestamp_desc (e # es) = insert_desc e (orderBy_timestamp_desc es)"

text \<open>
  The rows of
  \<^verbatim>\<open>executions JOIN granules_executions ON executions.cumulus_id = execution_cumulus_id
             JOIN granules ON granules.cumulus_id = granule_cumulus_id
  WHERE granule_id IN granuleIds AND workflow_name IN workflowNames\<close>:
  one result row for every triple of an execution, a join row and a granule that meets
  the two join conditions and the two filters.
\<close>

definition joined_rows ::
  "'t catalog \<Rightarrow> string list \<Rightarrow> string list \<Rightarrow> 't execution_row list" where
  "joined_rows db granuleIds workflowNames =
     concat (map (\<lambda>e.
       concat (map (\<lambda>ge.
         concat (map (\<lambda>g.
           if ex_cumulus_id e = ge_execution_cumulus_id ge
              \<and> gr_cumulus_id g = ge_granule_cumulus_id ge
              \<and> gr_granule_id g \<in> set granuleIds
              \<and> ex_workflow_name e \<in> set workflowNames
           then [e] else [])
         (tbl_granules db)))
       (tbl_granulesExecutions db)))
     (tbl_executions db))"

definition executionArnsFromGranuleIdsAndWorkflowNames ::
  "'t::linorder catalog \<Rightarrow> string list \<Rightarrow> string list \<Rightarrow> string list" where
  "executionArnsFromGranuleIdsAndWorkflowNames db granuleIds workflowNames =
     map ex_arn (orderBy_timestamp_desc (joined_rows db granuleIds workflowNames))"

text \<open>
  The \<^verbatim>\<open>catch\<close> block logs the error and throws it again, so the error value is the
  one raised inside.
\<close>

definition newestExecutionArnFromGranuleIdWorkflowName ::
  "'t::linorder catalog \<Rightarrow> string \<Rightarrow> string \<Rightarrow> js_error + string" where
  "newestExecutionArnFromGranuleIdWorkflowName db granuleId workflowName =
     (case executionArnsFromGranuleIdsAndWorkflowNames db [granuleId] [workflowName] of
        [] \<Rightarrow> Inl (RecordDoesNotExist
                 (''No executionArns found for granuleId:'' @ granuleId
                    @ '' running workflow:'' @ workflowName))
      | arn # _ \<Rightarrow> Inr arn)"

text \<open>
  An execution matches a granule identifier and a workflow name when it is a row of
  \<open>executions\<close> with that workflow name and a join row links it to a granule row with
  that identifier.
\<close>

definition matching :: "'t catalog \<Rightarrow> string \<Rightarrow> string \<Rightarrow> 't execution_row \<Rightarrow> bool" where
  "matching db granuleId workflowName e \<longleftrightarrow>
     e \<in> set (tbl_executions db) \<and> ex_workflow_name e = workflowName \<and>
     (\<exists>ge \<in> set (tbl_granulesExecutions db). \<exists>g \<in> set (tbl_granules db).
        ex_cumulus_id e = ge_execution_cumulus_id ge \<and>
        gr_cumulus_id g = ge_granule_cumulus_id ge \<and>
        gr_granule_id g = granuleId)"

text \<open>A small catalog: granule \<open>G\<close> ran workflow \<open>W\<close> twice and \<open>V\<close> once, \<open>H\<close> ran \<open>W\<close> once.\<close>

definition example_catalog :: "int catalog" where
  "example_catalog = \<lparr>tbl_executions =
      [\<lparr>ex_cumulus_id = 1, ex_arn = ''arn1'', ex_workflow_name = ''W'', ex_timestamp = 10\<rparr>,
       \<lparr>ex_cumulus_id = 2, ex_arn = ''arn2'', ex_workflow_name = ''W'', ex_timestamp = 30\<rparr>,
       \<lparr>ex_cumulus_id = 3, ex_arn = ''arn3'', ex_workflow_name = ''V'', ex_timestamp = 50\<rparr>,
       \<lparr>ex_cumulus_id = 4, ex_arn = ''arn4'', ex_workflow_name = ''W'', ex_timestamp = 20\<rparr>],
     tbl_granulesExecutions =
      [\<lparr>ge_granule_cumulus_id = 7, ge_execution_cumulus_id = 1\<rparr>,
       \<lparr>ge_granule_cumulus_id = 7, ge_execution_cumulus_id = 2\<rparr>,
       \<lparr>ge_granule_cumulus_id = 7, ge_execution_cumulus_id = 3\<rparr>,
       \<lparr>ge_granule_cumulus_id = 8, ge_execution_cumulus_id = 4\<rparr>],
     tbl_granules =
      [\<lparr>gr_cumulus_id = 7, gr_granule_id = ''G''\<rparr>,
       \<lparr>gr_cumulus_id = 8, gr_granule_id = ''H''\<rparr>]\<rparr>"

section \<open>Rules: event source mappings shared between rules (the Rule model)\<close>

text \<open>
  A rule item of the rules table, with the fields the functions below read:
  \<^verbatim>\<open>item.name\<close>, \<^verbatim>\<open>item.state\<close>, \<^verbatim>\<open>item.rule.type\<close>, \<^verbatim>\<open>item.rule.value\<close>,
  \<^verbatim>\<open>item.rule.arn\<close> and \<^verbatim>\<open>item.rule.logEventArn\<close>. The last two may be absent.
\<close>

record rule_item =
  rl_name :: string
  rl_state :: string
  rl_type :: string
  rl_value :: string
  rl_arn :: "string option"
  rl_logEventArn :: "string option"

text \<open>
  The two event types of \<^verbatim>\<open>this.eventMapping = { arn: 'arn', logEventArn: 'logEventArn' }\<close>;
  \<open>eventMapping\<close> reads \<^verbatim>\<open>item.rule[this.eventMapping[eventType]]\<close>.
\<close>

datatype event_type = Arn | LogEventArn

fun eventMapping :: "event_type \<Rightarrow> rule_item \<Rightarrow> string option" where
  "eventMapping Arn item = rl_arn item"
| "eventMapping LogEventArn item = rl_logEventArn item"

text \<open>
  The values \<^verbatim>\<open>rules.Count && rules.Count > 0\<close> can take: the number \<open>0\<close> when the
  count is zero (\<^verbatim>\<open>&&\<close> returns its falsy left operand), a boolean otherwise.
\<close>

datatype js_value = JsNumber nat | JsBoolean bool

fun truthy :: "js_value \<Rightarrow> bool" where
  "truthy (JsNumber n) = (n \<noteq> 0)"
| "truthy (JsBoolean b) = b"

definition js_and :: "js_value \<Rightarrow> js_value \<Rightarrow> js_value" where
  "js_and a b = (if truthy a then b else a)"

text \<open>
  The filter expression
  \<^verbatim>\<open>#nm <> :name AND #rl.#tp = :ruleType AND #rl.#<eventType> = :<eventType>\<close>
  with \<^verbatim>\<open>:name = item.name\<close>, \<^verbatim>\<open>:ruleType = item.rule.type\<close> and
  \<^verbatim>\<open>:<eventType> = item.rule[eventType]\<close>. It does not mention \<^verbatim>\<open>state\<close>. A row
  without the attribute satisfies no equality on it.
\<close>

definition scan_filter :: "rule_item \<Rightarrow> event_type \<Rightarrow> rule_item \<Rightarrow> bool" where
  "scan_filter item eventType r \<longleftrightarrow>
     rl_name r \<noteq> rl_name item \<and> rl_type r = rl_type item
     \<and> eventMapping eventType r \<noteq> None
     \<and> eventMapping eventType r = eventMapping eventType item"

text \<open>
  Modelled from the spec: \<^verbatim>\<open>Manager.scan\<close> of the base model is not among these
  sources. Following the spec's "scan for other rules", the \<^verbatim>\<open>Count\<close> of its
  result is the number of rules of the table that satisfy the filter expression.
\<close>

definition scan_Count :: "rule_item list \<Rightarrow> (rule_item \<Rightarrow> bool) \<Rightarrow> nat" where
  "scan_Count rulesTable flt = length (filter flt rulesTable)"

definition isEventSourceMappingShared :: "rule_item list \<Rightarrow> rule_item \<Rightarrow> event_type \<Rightarrow> js_value" where
  "isEventSourceMappingShared rulesTable item eventType =
     (let count = scan_Count rulesTable (scan_filter item eventType)
      in js_and (JsNumber count) (JsBoolean (count > 0)))"

text \<open>
  \<open>deleteKinesisEventSource\<close> returns the calls it makes to the Lambda service: none when
  the mapping is shared (\<^verbatim>\<open>return undefined\<close>), otherwise one
  \<^verbatim>\<open>deleteEventSourceMapping\<close> with the UUID read from the item.
\<close>

datatype aws_call = DeleteEventSourceMapping "string option"

definition deleteKinesisEventSource :: "rule_item list \<Rightarrow> rule_item \<Rightarrow> event_type \<Rightarrow> aws_call list" where
  "deleteKinesisEventSource rulesTable item eventType =
     (if truthy (isEventSourceMappingShared rulesTable item eventType) then []
      else [DeleteEventSourceMapping (eventMapping eventType item)])"

text \<open>
  The condition in the specification's words: another \<^emph>\<open>enabled\<close> rule (a different
  name, state \<open>ENABLED\<close>) with the same rule type and the same event-source identifier.
\<close>

definition other_enabled_rule_shares :: "rule_item list \<Rightarrow> rule_item \<Rightarrow> event_type \<Rightarrow> bool" where
  "other_enabled_rule_shares rulesTable item eventType \<longleftrightarrow>
     (\<exists>r \<in> set rulesTable. rl_name r \<noteq> rl_name item \<and> rl_state r = ''ENABLED''
        \<and> rl_type r = rl_type item \<and> eventMapping eventType r = eventMapping eventType item)"

text \<open>The condition the scan computes: another rule, in whatever state.\<close>

definition other_rule_shares :: "rule_item list \<Rightarrow> rule_item \<Rightarrow> event_type \<Rightarrow> bool" where
  "other_rule_shares rulesTable item eventType \<longleftrightarrow>
     (\<exists>r \<in> set rulesTable. rl_name r \<noteq> rl_name item
        \<and> rl_type r = rl_type item \<and> eventMapping eventType r = eventMapping eventType item)"

definition kinesisRule :: "string \<Rightarrow> string \<Rightarrow> rule_item" where
  "kinesisRule n st = \<lparr>rl_name = n, rl_state = st, rl_type = ''kinesis'',
     rl_value = ''arn:aws:kinesis:stream'', rl_arn = Some ''uuid-1'',
     rl_logEventArn = Some ''uuid-2''\<rparr>"

section \<open>Bulk operations on granules (the bulk-operation lambda)\<close>

text \<open>
  The item of a bulk request (\<^verbatim>\<open>{ granuleId, collectionId }\<close>), the catalog rows of a
  collection and of a granule, the API form of a granule, and the payload of the request,
  each with the fields the functions below read.
\<close>

record bulk_granule =
  bg_granuleId :: string
  bg_collectionId :: string

record pg_collection =
  col_cumulus_id :: nat

record pg_granule =
  pg_cumulus_id :: nat
  pg_granule_id :: string
  pg_collection_cumulus_id :: nat
  pg_status :: string
  pg_published :: bool

record api_granule =
  ag_granuleId :: string
  ag_collectionId :: string
  ag_published :: bool
  ag_execution :: "string option"

record payload =
  pl_forceRemoveFromCmr :: "bool option"
  pl_workflowName :: string
  pl_meta :: "string option"
  pl_queueUrl :: "string option"
  pl_granules :: "bulk_granule list"

text \<open>
  The functions the lambda calls but does not define are parameters. A \<open>query\<close> reads the
  stores and returns a value or throws; an \<open>action\<close> may also change the stores, and
  leaves them in some state when it throws. \<open>'s\<close> is the state of all stores together.
  The fields keep the names of the imported functions; \<open>collectionPgModel_get\<close> stands for
  \<^verbatim>\<open>collectionPgModel.get(knex, deconstructCollectionId(granule.collectionId))\<close>, and the
  \<^verbatim>\<open>asyncOperationId\<close> of the process environment belongs to \<open>applyWorkflow\<close> and
  \<open>reingestGranule\<close>.
\<close>

type_synonym ('s, 'a) query = "'s \<Rightarrow> js_error + 'a"
type_synonym ('s, 'a) action = "'s \<Rightarrow> (js_error + 'a) \<times> 's"

record 's collaborators =
  getGranulesForPayload :: "payload \<Rightarrow> ('s, bulk_granule list) query"
  getKnexClient :: "('s, unit) query"
  collectionPgModel_get :: "string \<Rightarrow> ('s, pg_collection) query"
  getGranuleByUniqueColumns :: "string \<Rightarrow> nat \<Rightarrow> ('s, pg_granule) query"
  translatePostgresGranuleToApiGranule :: "pg_granule \<Rightarrow> ('s, api_granule) query"
  chooseTargetExecution :: "string \<Rightarrow> string \<Rightarrow> ('s, string option) query"
  updateGranuleStatusToQueued :: "api_granule \<Rightarrow> ('s, unit) action"
  applyWorkflow :: "api_granule \<Rightarrow> string \<Rightarrow> string option \<Rightarrow> string option \<Rightarrow> ('s, unit) action"
  reingestGranule :: "api_granule \<Rightarrow> ('s, unit) action"
  unpublishGranule :: "pg_granule \<Rightarrow> ('s, pg_granule) action"
  deleteGranuleAndFiles :: "pg_granule \<Rightarrow> ('s, unit) action"

text \<open>
  \<^verbatim>\<open>pMap(input, mapper, { stopOnError })\<close> of \<^verbatim>\<open>p-map\<close> 4. The mappers are run one after
  another in the order of the input (what the items of one concurrency window do to each
  other is not modelled). A mapper that rejects ends the run when \<open>stopOnError\<close> is true;
  otherwise its error is collected and the run goes on. At the end the promise resolves
  with the mapped values, or rejects: with the first error when \<open>stopOnError\<close> is true,
  with an \<open>AggregateError\<close> of all collected errors when it is false.
\<close>

fun pMap_run :: "'x list \<Rightarrow> ('x \<Rightarrow> 's \<Rightarrow> (js_error + 'a) \<times> 's) \<Rightarrow> bool \<Rightarrow> 's
    \<Rightarrow> (js_error + 'a) list \<times> 's" where
  "pMap_run [] mapper stopOnError s = ([], s)"
| "pMap_run (x # xs) mapper stopOnError s =
     (case mapper x s of
        (Inl error, s1) \<Rightarrow>
          if stopOnError then ([Inl error], s1)
          else (case pMap_run xs mapper stopOnError s1 of (rs, s2) \<Rightarrow> (Inl error # rs, s2))
      | (Inr v, s1) \<Rightarrow>
          (case pMap_run xs mapper stopOnError s1 of (rs, s2) \<Rightarrow> (Inr v # rs, s2)))"

fun rejections :: "(js_error + 'a) list \<Rightarrow> js_error list" where
  "rejections [] = []"
| "rejections (Inl e # rs) = e # rejections rs"
| "rejections (Inr v # rs) = rejections rs"

fun fulfilments :: "(js_error + 'a) list \<Rightarrow> 'a list" where
  "fulfilments [] = []"
| "fulfilments (Inl e # rs) = fulfilments rs"
| "fulfilments (Inr v # rs) = v # fulfilments rs"

definition pMap :: "'x list \<Rightarrow> ('x \<Rightarrow> 's \<Rightarrow> (js_error + 'a) \<times> 's) \<Rightarrow> bool \<Rightarrow> 's
    \<Rightarrow> (js_error + 'a list) \<times> 's" where
  "pMap input mapper stopOnError s =
     (case pMap_run input mapper stopOnError s of
        (rs, s') \<Rightarrow>
          (case rejections rs of
             [] \<Rightarrow> (Inr (fulfilments rs), s')
           | error # errors \<Rightarrow>
               if stopOnError then (Inl error, s')
               else (Inl (AggregateError (error # errors)), s')))"

text \<open>
  What a mapper of \<open>applyWorkflowToGranules\<close> and \<open>bulkGranuleReingest\<close> resolves with:
  \<^verbatim>\<open>granule.granuleId\<close> or \<^verbatim>\<open>{ granuleId: granule.granuleId, err: error }\<close>.
\<close>

datatype bulk_entry = GranuleId string | GranuleErr string js_error

text \<open>
  The mapper of \<open>applyWorkflowToGranules\<close>: its whole body is inside \<^verbatim>\<open>try\<close>, so every
  error becomes an entry of the result. \<^verbatim>\<open>pMap\<close> is called without options
  (\<open>stopOnError\<close> defaults to true).
\<close>

definition applyWorkflowToGranules_mapper ::
  "'s collaborators \<Rightarrow> string \<Rightarrow> string option \<Rightarrow> string option \<Rightarrow> bulk_granule
     \<Rightarrow> 's \<Rightarrow> (js_error + bulk_entry) \<times> 's" where
  "applyWorkflowToGranules_mapper c workflowName meta queueUrl granule s =
     (case collectionPgModel_get c (bg_collectionId granule) s of
        Inl error \<Rightarrow> (Inr (GranuleErr (bg_granuleId granule) error), s)
      | Inr collection \<Rightarrow>
     (case getGranuleByUniqueColumns c (bg_granuleId granule) (col_cumulus_id collection) s of
        Inl error \<Rightarrow> (Inr (GranuleErr (bg_granuleId granule) error), s)
      | Inr pgGranule \<Rightarrow>
     (case translatePostgresGranuleToApiGranule c pgGranule s of
        Inl error \<Rightarrow> (Inr (GranuleErr (bg_granuleId granule) error), s)
      | Inr apiGranule \<Rightarrow>
     (case updateGranuleStatusToQueued c apiGranule s of
        (Inl error, s1) \<Rightarrow> (Inr (GranuleErr (bg_granuleId granule) error), s1)
      | (Inr _, s1) \<Rightarrow>
     (case applyWorkflow c apiGranule workflowName meta queueUrl s1 of
        (Inl error, s2) \<Rightarrow> (Inr (GranuleErr (bg_granuleId granule) error), s2)
      | (Inr _, s2) \<Rightarrow> (Inr (GranuleId (bg_granuleId granule)), s2))))))"

definition applyWorkflowToGranules ::
  "'s collaborators \<Rightarrow> bulk_granule list \<Rightarrow> string \<Rightarrow> string option \<Rightarrow> string option
     \<Rightarrow> 's \<Rightarrow> (js_error + bulk_entry list) \<times> 's" where
  "applyWorkflowToGranules c granules workflowName meta queueUrl s =
     pMap granules (applyWorkflowToGranules_mapper c workflowName meta queueUrl) True s"

text \<open>
  The mapper of \<open>bulkGranuleDelete\<close>. Its state pairs the stores with the array
  \<^verbatim>\<open>deletedGranules\<close> it pushes to. The collection lookup is outside any \<^verbatim>\<open>try\<close>;
  a failed granule lookup returns without deleting; an error of the unpublish function or
  of \<open>deleteGranuleAndFiles\<close> rejects. \<^verbatim>\<open>pMap\<close> is called with
  \<^verbatim>\<open>{ concurrency: 10, stopOnError: false }\<close>.
\<close>

definition bulkGranuleDelete_mapper ::
  "'s collaborators \<Rightarrow> bool \<Rightarrow> bulk_granule \<Rightarrow> 's \<times> string list
     \<Rightarrow> (js_error + unit) \<times> ('s \<times> string list)" where
  "bulkGranuleDelete_mapper c forceRemoveFromCmr granule st =
     (case st of (s, deletedGranules) \<Rightarrow>
     (case collectionPgModel_get c (bg_collectionId granule) s of
        Inl error \<Rightarrow> (Inl error, (s, deletedGranules))
      | Inr collection \<Rightarrow>
     (case getGranuleByUniqueColumns c (bg_granuleId granule) (col_cumulus_id collection) s of
        Inl error \<Rightarrow> (Inr (), (s, deletedGranules))
      | Inr pgGranule \<Rightarrow>
     (case (if pg_published pgGranule \<and> forceRemoveFromCmr
            then unpublishGranule c pgGranule s else (Inr pgGranule, s)) of
        (Inl error, s1) \<Rightarrow> (Inl error, (s1, deletedGranules))
      | (Inr pgGranule', s1) \<Rightarrow>
     (case deleteGranuleAndFiles c pgGranule' s1 of
        (Inl error, s2) \<Rightarrow> (Inl error, (s2, deletedGranules))
      | (Inr _, s2) \<Rightarrow> (Inr (), (s2, deletedGranules @ [bg_granuleId granule])))))))"

definition bulkGranuleDelete ::
  "'s collaborators \<Rightarrow> payload \<Rightarrow> 's \<Rightarrow> (js_error + string list) \<times> 's" where
  "bulkGranuleDelete c payload s =
     (let forceRemoveFromCmr = (pl_forceRemoveFromCmr payload = Some True) in
      case getGranulesForPayload c payload s of
        Inl error \<Rightarrow> (Inl error, s)
      | Inr granules \<Rightarrow>
     (case getKnexClient c s of
        Inl error \<Rightarrow> (Inl error, s)
      | Inr _ \<Rightarrow>
     (case pMap granules (bulkGranuleDelete_mapper c forceRemoveFromCmr) False (s, []) of
        (Inl error, (s', deletedGranules)) \<Rightarrow> (Inl error, s')
      | (Inr _, (s', deletedGranules)) \<Rightarrow> (Inr deletedGranules, s'))))"

definition bulkGranule ::
  "'s collaborators \<Rightarrow> payload \<Rightarrow> 's \<Rightarrow> (js_error + bulk_entry list) \<times> 's" where
  "bulkGranule c payload s =
     (case getKnexClient c s of
        Inl error \<Rightarrow> (Inl error, s)
      | Inr _ \<Rightarrow>
     (case getGranulesForPayload c payload s of
        Inl error \<Rightarrow> (Inl error, s)
      | Inr granules \<Rightarrow>
          applyWorkflowToGranules c granules (pl_workflowName payload) (pl_meta payload)
            (pl_queueUrl payload) s))"

text \<open>
  The mapper of \<open>bulkGranuleReingest\<close>: the collection lookup comes before the \<^verbatim>\<open>try\<close>,
  everything after it is inside. \<^verbatim>\<open>pMap\<close> is called with
  \<^verbatim>\<open>{ concurrency: 10, stopOnError: false }\<close>.
\<close>

definition bulkGranuleReingest_mapper ::
  "'s collaborators \<Rightarrow> string \<Rightarrow> bulk_granule \<Rightarrow> 's \<Rightarrow> (js_error + bulk_entry) \<times> 's" where
  "bulkGranuleReingest_mapper c workflowName granule s =
     (case collectionPgModel_get c (bg_collectionId granule) s of
        Inl error \<Rightarrow> (Inl error, s)
      | Inr collection \<Rightarrow>
     (case getGranuleByUniqueColumns c (bg_granuleId granule) (col_cumulus_id collection) s of
        Inl error \<Rightarrow> (Inr (GranuleErr (bg_granuleId granule) error), s)
      | Inr pgGranule \<Rightarrow>
     (case translatePostgresGranuleToApiGranule c pgGranule s of
        Inl error \<Rightarrow> (Inr (GranuleErr (bg_granuleId granule) error), s)
      | Inr apiGranule \<Rightarrow>
     (case chooseTargetExecution c (bg_granuleId granule) workflowName s of
        Inl error \<Rightarrow> (Inr (GranuleErr (bg_granuleId granule) error), s)
      | Inr targetExecution \<Rightarrow>
     (let apiGranuleToReingest =
            (case targetExecution of
               None \<Rightarrow> apiGranule
             | Some execution \<Rightarrow> apiGranule\<lparr>ag_execution := Some execution\<rparr>) in
      case updateGranuleStatusToQueued c apiGranuleToReingest s of
        (Inl error, s1) \<Rightarrow> (Inr (GranuleErr (bg_granuleId granule) error), s1)
      | (Inr _, s1) \<Rightarrow>
     (case reingestGranule c apiGranuleToReingest s1 of
        (Inl error, s2) \<Rightarrow> (Inr (GranuleErr (bg_granuleId granule) error), s2)
      | (Inr _, s2) \<Rightarrow> (Inr (GranuleId (bg_granuleId granule)), s2)))))))"

definition bulkGranuleReingest ::
  "'s collaborators \<Rightarrow> payload \<Rightarrow> 's \<Rightarrow> (js_error + bulk_entry list) \<times> 's" where
  "bulkGranuleReingest c payload s =
     (case getGranulesForPayload c payload s of
        Inl error \<Rightarrow> (Inl error, s)
      | Inr granules \<Rightarrow>
     (case getKnexClient c s of
        Inl error \<Rightarrow> (Inl error, s)
      | Inr _ \<Rightarrow>
          pMap granules (bulkGranuleReingest_mapper c (pl_workflowName payload)) False s))"

fun entry_granuleId :: "bulk_entry \<Rightarrow> string" where
  "entry_granuleId (GranuleId granuleId) = granuleId"
| "entry_granuleId (GranuleErr granuleId err) = granuleId"

text \<open>
  A concrete set of stores and collaborators to run the functions on: a catalog of
  granule rows, the identifiers in the search index, and the granules queued and started.
  Collection \<open>C___1\<close> exists and nothing else; unpublishing fails for the granules named in
  \<open>cmrFailures\<close> and otherwise clears the row's published flag; deletion removes the row
  and the index entry.
\<close>

record store =
  st_catalog :: "pg_granule list"
  st_index :: "string list"
  st_queued :: "string list"
  st_started :: "string list"

definition example_collaborators :: "string list \<Rightarrow> store collaborators" where
  "example_collaborators cmrFailures =
     \<lparr>getGranulesForPayload = (\<lambda>p s. Inr (pl_granules p)),
      getKnexClient = (\<lambda>s. Inr ()),
      collectionPgModel_get = (\<lambda>collectionId s.
        if collectionId = ''C___1'' then Inr \<lparr>col_cumulus_id = 7\<rparr>
        else Inl (RecordDoesNotExist ''collection'')),
      getGranuleByUniqueColumns = (\<lambda>granuleId collectionCumulusId s.
        case find (\<lambda>r. pg_granule_id r = granuleId
                        \<and> pg_collection_cumulus_id r = collectionCumulusId) (st_catalog s) of
          None \<Rightarrow> Inl (RecordDoesNotExist ''granule'')
        | Some r \<Rightarrow> Inr r),
      translatePostgresGranuleToApiGranule = (\<lambda>pg s.
        Inr \<lparr>ag_granuleId = pg_granule_id pg, ag_collectionId = ''C___1'',
             ag_published = pg_published pg, ag_execution = None\<rparr>),
      chooseTargetExecution = (\<lambda>granuleId workflowName s. Inr None),
      updateGranuleStatusToQueued = (\<lambda>ag s.
        (Inr (), s\<lparr>st_queued := st_queued s @ [ag_granuleId ag]\<rparr>)),
      applyWorkflow = (\<lambda>ag workflow meta queueUrl s.
        (Inr (), s\<lparr>st_started := st_started s @ [ag_granuleId ag]\<rparr>)),
      reingestGranule = (\<lambda>ag s.
        (Inr (), s\<lparr>st_started := st_started s @ [ag_granuleId ag]\<rparr>)),
      unpublishGranule = (\<lambda>pg s.
        if pg_granule_id pg \<in> set cmrFailures then (Inl (Error ''CMR unavailable''), s)
        else (Inr (pg\<lparr>pg_published := False\<rparr>),
              s\<lparr>st_catalog := map (\<lambda>r. if pg_cumulus_id r = pg_cumulus_id pg
                                         then r\<lparr>pg_published := False\<rparr> else r)
                                    (st_catalog s)\<rparr>)),
      deleteGranuleAndFiles = (\<lambda>pg s.
        (Inr (), s\<lparr>st_catalog := filter (\<lambda>r. pg_cumulus_id r \<noteq> pg_cumulus_id pg) (st_catalog s),
                    st_index := removeAll (pg_granule_id pg) (st_index s)\<rparr>))\<rparr>"

definition example_row :: "nat \<Rightarrow> string \<Rightarrow> bool \<Rightarrow> pg_granule" where
  "example_row n granuleId published =
     \<lparr>pg_cumulus_id = n, pg_granule_id = granuleId, pg_collection_cumulus_id = 7,
      pg_status = ''completed'', pg_published = published\<rparr>"

definition example_store :: store where
  "example_store =
     \<lparr>st_catalog = [example_row 11 ''G1'' True, example_row 12 ''G2'' True,
                    example_row 13 ''G3'' False, example_row 14 ''G4'' False,
                    example_row 15 ''G5'' False],
      st_index = [''G1'', ''G2'', ''G3'', ''G4'', ''G5''],
      st_queued = [], st_started = []\<rparr>"

definition example_granule :: "string \<Rightarrow> bulk_granule" where
  "example_granule granuleId = \<lparr>bg_granuleId = granuleId, bg_collectionId = ''C___1''\<rparr>"

definition example_payload :: "bulk_granule list \<Rightarrow> payload" where
  "example_payload gs = \<lparr>pl_forceRemoveFromCmr = Some True, pl_workflowName = ''W'',
     pl_meta = None, pl_queueUrl = None, pl_granules = gs\<rparr>"

definition five_granules :: "bulk_granule list" where
  "five_granules =
     [example_granule ''G1'', example_granule ''G2'',
      \<lparr>bg_granuleId = ''G3'', bg_collectionId = ''missing___1''\<rparr>,
      example_granule ''G4'', example_granule ''G5'']"

section \<open>Transactions on the catalog\<close>

text \<open>
  Modelled from the spec: \<^verbatim>\<open>createRejectableTransaction\<close> of the db package is not among
  these sources. The spec has every operation run inside a caller-supplied database
  transaction so that several model operations compose atomically, the transaction
  staying open across the calls to the other stores "to allow full rollback via
  transaction abort". The body works on the transaction's copy \<open>trx\<close> of the catalog and
  on everything outside the catalog, \<open>w\<close>. When the body resolves the copy is committed;
  when it rejects the catalog is what it was before, and what the body did outside the
  catalog stays done.
\<close>

definition createRejectableTransaction ::
  "('db \<Rightarrow> 'w \<Rightarrow> (js_error + 'a) \<times> 'db \<times> 'w) \<Rightarrow> 'db \<Rightarrow> 'w
     \<Rightarrow> (js_error + 'a) \<times> 'db \<times> 'w" where
  "createRejectableTransaction body db w =
     (case body db w of
        (Inl error, trx, w') \<Rightarrow> (Inl error, db, w')
      | (Inr v, trx, w') \<Rightarrow> (Inr v, trx, w'))"

section \<open>Deleting an execution from the three stores (the executions endpoint)\<close>

text \<open>
  The three stores of execution records, each keyed by the execution ARN: the relational
  catalog, the legacy key-value store and the search index. The record types are
  parameters.
\<close>

record ('c, 'l, 'i) stores =
  sto_catalog :: "string \<rightharpoonup> 'c"
  sto_legacy :: "string \<rightharpoonup> 'l"
  sto_index :: "string \<rightharpoonup> 'i"

text \<open>
  The three store-removal steps, and the two responses of the endpoint: 404
  \<^verbatim>\<open>No record found\<close> and 200 \<^verbatim>\<open>Record deleted\<close>.
\<close>

datatype removal_step = CatalogRemoval | LegacyRemoval | IndexRemoval

datatype del_response = NotFoundResponse | RecordDeletedResponse

text \<open>
  Modelled from the spec: the delete methods of the three store clients are not among
  these sources. A removal either throws the error the fault plan \<open>faults\<close> holds for its
  step, removing nothing (the tests inject a \<^verbatim>\<open>delete\<close> that throws), or removes the
  record of that key; removing an absent record succeeds ("never fails if the row is
  already absent").
\<close>

definition store_delete ::
  "(removal_step \<Rightarrow> js_error option) \<Rightarrow> removal_step \<Rightarrow> string \<Rightarrow> (string \<rightharpoonup> 'r)
     \<Rightarrow> js_error + (string \<rightharpoonup> 'r)" where
  "store_delete faults step arn records =
     (case faults step of
        Some error \<Rightarrow> Inl error
      | None \<Rightarrow> Inr (records(arn := None)))"

text \<open>
  Modelled from the spec: the coordinator "holds the pre-image" and reverts the legacy
  store with it; the tests' fake legacy model has \<^verbatim>\<open>get\<close>, \<^verbatim>\<open>delete\<close> and
  \<^verbatim>\<open>create\<close>. With no pre-image there is nothing to put back.
\<close>

definition recreate :: "string \<Rightarrow> 'r option \<Rightarrow> (string \<rightharpoonup> 'r) \<Rightarrow> (string \<rightharpoonup> 'r)" where
  "recreate arn preimage records =
     (case preimage of None \<Rightarrow> records | Some record \<Rightarrow> records(arn \<mapsto> record))"

text \<open>
  Modelled from the spec: \<^verbatim>\<open>del\<close> of the executions endpoint is not among these sources
  (its tests are). Following section 4.3 of the spec: existence is checked in all three
  stores and the not-found response is given only when the record is in none; removal
  goes catalog first, inside the transaction, then the legacy store, then the search
  index; an error at any step aborts the rest, rolls the transaction back, has the legacy
  record put back from its pre-image, and is thrown again unchanged.
\<close>

definition del_transaction ::
  "(removal_step \<Rightarrow> js_error option) \<Rightarrow> string \<Rightarrow> (string \<rightharpoonup> 'c)
     \<Rightarrow> (string \<rightharpoonup> 'l) \<times> (string \<rightharpoonup> 'i)
     \<Rightarrow> (js_error + unit) \<times> (string \<rightharpoonup> 'c) \<times> (string \<rightharpoonup> 'l) \<times> (string \<rightharpoonup> 'i)" where
  "del_transaction faults arn trx secondary =
     (case secondary of (legacy, index) \<Rightarrow>
     (case store_delete faults CatalogRemoval arn trx of
        Inl error \<Rightarrow> (Inl error, trx, (legacy, index))
      | Inr trx' \<Rightarrow>
     (case store_delete faults LegacyRemoval arn legacy of
        Inl error \<Rightarrow> (Inl error, trx', (legacy, index))
      | Inr legacy' \<Rightarrow>
     (case store_delete faults IndexRemoval arn index of
        Inl error \<Rightarrow> (Inl error, trx', (legacy', index))
      | Inr index' \<Rightarrow> (Inr (), trx', (legacy', index'))))))"

definition del ::
  "(removal_step \<Rightarrow> js_error option) \<Rightarrow> string \<Rightarrow> ('c, 'l, 'i) stores
     \<Rightarrow> (js_error + del_response) \<times> ('c, 'l, 'i) stores" where
  "del faults arn s =
     (if sto_catalog s arn = None \<and> sto_legacy s arn = None \<and> sto_index s arn = None
      then (Inr NotFoundResponse, s)
      else
        let preimage = sto_legacy s arn in
        case createRejectableTransaction (del_transaction faults arn)
               (sto_catalog s) (sto_legacy s, sto_index s) of
          (Inl error, catalog', (legacy', index')) \<Rightarrow>
            (Inl error,
             \<lparr>sto_catalog = catalog', sto_legacy = recreate arn preimage legacy',
              sto_index = index'\<rparr>)
        | (Inr _, catalog', (legacy', index')) \<Rightarrow>
            (Inr RecordDeletedResponse,
             \<lparr>sto_catalog = catalog', sto_legacy = legacy', sto_index = index'\<rparr>))"

text \<open>
  Fault plans: one injected failure at a chosen step, and none. A record is present
  somewhere when at least one store holds it.
\<close>

definition inject :: "removal_step \<Rightarrow> js_error \<Rightarrow> removal_step \<Rightarrow> js_error option" where
  "inject step error = (\<lambda>step'. if step' = step then Some error else None)"

definition no_faults :: "removal_step \<Rightarrow> js_error option" where
  "no_faults = (\<lambda>step. None)"

definition present_somewhere :: "string \<Rightarrow> ('c, 'l, 'i) stores \<Rightarrow> bool" where
  "present_somewhere arn s \<longleftrightarrow>
     sto_catalog s arn \<noteq> None \<or> sto_legacy s arn \<noteq> None \<or> sto_index s arn \<noteq> None"

text \<open>
  Example stores: \<open>arn1\<close> is in all three, \<open>arn2\<close> only in the catalog, \<open>arn3\<close> only in the
  search index.
\<close>

definition example_stores :: "(string, string, string) stores" where
  "example_stores =
     \<lparr>sto_catalog = [''arn1'' \<mapsto> ''pg1'', ''arn2'' \<mapsto> ''pg2''],
      sto_legacy = [''arn1'' \<mapsto> ''dynamo1''],
      sto_index = [''arn1'' \<mapsto> ''es1'', ''arn3'' \<mapsto> ''es3'']\<rparr>"

section \<open>Granule upsert with its execution join record\<close>

text \<open>
  The granule record handed to the upsert (no surrogate key yet), and the two catalog
  tables the operation writes: \<open>granules\<close> and the join table \<open>granules_executions\<close>.
\<close>

record postgres_granule =
  psg_granule_id :: string
  psg_collection_cumulus_id :: nat
  psg_status :: string

record granules_db =
  gdb_granules :: "pg_granule list"
  gdb_granules_executions :: "granules_executions_row list"

text \<open>
  Modelled from the spec: \<^verbatim>\<open>upsertGranuleWithExecutionJoinRecord\<close> of the db package is
  not among these sources (its tests are). Its parameters are those of the tests' calls:
  the transaction, the granule, the execution's surrogate key, and the two models, whose
  \<^verbatim>\<open>upsert\<close> methods are parameters here. Following the spec, the granule upsert
  "returns the resulting row" and the join record for that row and the execution is
  asserted next; an error of either upsert is thrown on as it is; the result is the list
  holding the granule row.
\<close>

definition upsertGranuleWithExecutionJoinRecord ::
  "granules_db \<Rightarrow> postgres_granule \<Rightarrow> nat
     \<Rightarrow> (postgres_granule \<Rightarrow> nat \<Rightarrow> granules_db \<Rightarrow> (js_error + pg_granule) \<times> granules_db)
     \<Rightarrow> (granules_executions_row \<Rightarrow> granules_db \<Rightarrow> (js_error + unit) \<times> granules_db)
     \<Rightarrow> (js_error + pg_granule list) \<times> granules_db" where
  "upsertGranuleWithExecutionJoinRecord trx granule executionCumulusId
       granulePgModel_upsert granulesExecutionsPgModel_upsert =
     (case granulePgModel_upsert granule executionCumulusId trx of
        (Inl error, trx1) \<Rightarrow> (Inl error, trx1)
      | (Inr pgGranule, trx1) \<Rightarrow>
     (case granulesExecutionsPgModel_upsert
             \<lparr>ge_granule_cumulus_id = pg_cumulus_id pgGranule,
              ge_execution_cumulus_id = executionCumulusId\<rparr> trx1 of
        (Inl error, trx2) \<Rightarrow> (Inl error, trx2)
      | (Inr _, trx2) \<Rightarrow> (Inr [pgGranule], trx2)))"

text \<open>
  The call of the tests:
  \<^verbatim>\<open>createRejectableTransaction(knex, (trx) => upsertGranuleWithExecutionJoinRecord(trx, ...))\<close>.
\<close>

definition upsert_in_transaction ::
  "granules_db \<Rightarrow> postgres_granule \<Rightarrow> nat
     \<Rightarrow> (postgres_granule \<Rightarrow> nat \<Rightarrow> granules_db \<Rightarrow> (js_error + pg_granule) \<times> granules_db)
     \<Rightarrow> (granules_executions_row \<Rightarrow> granules_db \<Rightarrow> (js_error + unit) \<times> granules_db)
     \<Rightarrow> (js_error + pg_granule list) \<times> granules_db" where
  "upsert_in_transaction knex granule executionCumulusId
       granulePgModel_upsert granulesExecutionsPgModel_upsert =
     (case createRejectableTransaction
             (\<lambda>trx w.
                case upsertGranuleWithExecutionJoinRecord trx granule executionCumulusId
                       granulePgModel_upsert granulesExecutionsPgModel_upsert of
                  (r, trx') \<Rightarrow> (r, trx', w))
             knex () of
        (r, db, w) \<Rightarrow> (r, db))"

text \<open>
  \<^verbatim>\<open>granulePgModel.exists(knex, { granule_id, collection_cumulus_id })\<close> and
  \<^verbatim>\<open>granulesExecutionsPgModel.exists(knex, { execution_cumulus_id })\<close>.
\<close>

definition granule_exists :: "granules_db \<Rightarrow> string \<Rightarrow> nat \<Rightarrow> bool" where
  "granule_exists db granuleId collectionCumulusId \<longleftrightarrow>
     (\<exists>r \<in> set (gdb_granules db).
        pg_granule_id r = granuleId \<and> pg_collection_cumulus_id r = collectionCumulusId)"

definition join_exists_for_execution :: "granules_db \<Rightarrow> nat \<Rightarrow> bool" where
  "join_exists_for_execution db executionCumulusId \<longleftrightarrow>
     (\<exists>j \<in> set (gdb_granules_executions db). ge_execution_cumulus_id j = executionCumulusId)"

text \<open>
  Example models and catalogs to run the operation on: a granule model that inserts a new
  row or overwrites the status of the row with the same granule identifier and
  collection, the tests' join model whose \<^verbatim>\<open>upsert\<close> rejects, a catalog that already
  holds granule \<open>G1\<close>, and an empty one.
\<close>

definition example_granulePgModel_upsert ::
  "postgres_granule \<Rightarrow> nat \<Rightarrow> granules_db \<Rightarrow> (js_error + pg_granule) \<times> granules_db" where
  "example_granulePgModel_upsert granule executionCumulusId db =
     (case find (\<lambda>r. pg_granule_id r = psg_granule_id granule
                    \<and> pg_collection_cumulus_id r = psg_collection_cumulus_id granule)
             (gdb_granules db) of
        Some row \<Rightarrow>
          (Inr (row\<lparr>pg_status := psg_status granule\<rparr>),
           db\<lparr>gdb_granules :=
                map (\<lambda>r. if pg_cumulus_id r = pg_cumulus_id row
                          then r\<lparr>pg_status := psg_status granule\<rparr> else r)
                  (gdb_granules db)\<rparr>)
      | None \<Rightarrow>
          (let row = \<lparr>pg_cumulus_id = 100 + length (gdb_granules db),
                      pg_granule_id = psg_granule_id granule,
                      pg_collection_cumulus_id = psg_collection_cumulus_id granule,
                      pg_status = psg_status granule, pg_published = False\<rparr>
           in (Inr row, db\<lparr>gdb_granules := gdb_granules db @ [row]\<rparr>)))"

definition failing_granulesExecutionsPgModel_upsert ::
  "granules_executions_row \<Rightarrow> granules_db \<Rightarrow> (js_error + unit) \<times> granules_db" where
  "failing_granulesExecutionsPgModel_upsert row db = (Inl (Error ''error''), db)"

definition example_postgres_granule :: postgres_granule where
  "example_postgres_granule =
     \<lparr>psg_granule_id = ''G1'', psg_collection_cumulus_id = 7, psg_status = ''running''\<rparr>"

definition example_granules_db :: granules_db where
  "example_granules_db =
     \<lparr>gdb_granules = [example_row 11 ''G1'' False],
      gdb_granules_executions =
        [\<lparr>ge_granule_cumulus_id = 11, ge_execution_cumulus_id = 21\<rparr>]\<rparr>"

definition empty_granules_db :: granules_db where
  "empty_granules_db = \<lparr>gdb_granules = [], gdb_granules_executions = []\<rparr>"

chapter \<open>Properties\<close>

section \<open>Newest execution ARN\<close>

lemma set_insert_desc: "set (insert_desc e xs) = insert e (set xs)"
  by (induction xs) auto

lemma set_orderBy_timestamp_desc: "set (orderBy_timestamp_desc xs) = set xs"
  by (induction xs) (auto simp: set_insert_desc)

lemma sorted_insert_desc:
  "sorted_wrt (\<lambda>a b. ex_timestamp b \<le> ex_timestamp a) xs \<Longrightarrow>
   sorted_wrt (\<lambda>a b. ex_timestamp b \<le> ex_timestamp a) (insert_desc e xs)"
  by (induction xs) (auto simp: set_insert_desc)

lemma sorted_orderBy_timestamp_desc:
  "sorted_wrt (\<lambda>a b. ex_timestamp b \<le> ex_timestamp a) (orderBy_timestamp_desc xs)"
  by (induction xs) (auto simp: sorted_insert_desc)

lemma orderBy_timestamp_desc_Nil: "orderBy_timestamp_desc xs = [] \<longleftrightarrow> xs = []"
  by (metis set_orderBy_timestamp_desc set_empty)

lemma orderBy_head_greatest:
  assumes "orderBy_timestamp_desc xs = e # rest"
  shows "e \<in> set xs \<and> (\<forall>e' \<in> set xs. ex_timestamp e' \<le> ex_timestamp e)"
proof -
  have mem: "set xs = insert e (set rest)"
    using set_orderBy_timestamp_desc [of xs] assms by simp
  have "sorted_wrt (\<lambda>a b. ex_timestamp b \<le> ex_timestamp a) (e # rest)"
    using sorted_orderBy_timestamp_desc [of xs] assms by simp
  then have "\<forall>e' \<in> set rest. ex_timestamp e' \<le> ex_timestamp e"
    by simp
  with mem show ?thesis by auto
qed

lemma set_joined_rows:
  "set (joined_rows db [granuleId] [workflowName]) = {e. matching db granuleId workflowName e}"
  by (auto simp: joined_rows_def matching_def split: if_splits)

text \<open>
  C10. When some execution matches the granule identifier and the workflow name,
  \<open>newestExecutionArnFromGranuleIdWorkflowName\<close> returns the ARN of a matching execution
  whose timestamp is greatest among all matching executions; when none matches, it
  throws \<open>RecordDoesNotExist\<close>.
\<close>

theorem newestExecutionArn_greatest_or_RecordDoesNotExist:
  "((\<exists>e. matching db granuleId workflowName e) \<longrightarrow>
      (\<exists>e. matching db granuleId workflowName e
         \<and> newestExecutionArnFromGranuleIdWorkflowName db granuleId workflowName = Inr (ex_arn e)
         \<and> (\<forall>e'. matching db granuleId workflowName e' \<longrightarrow> ex_timestamp e' \<le> ex_timestamp e)))
   \<and> (\<not> (\<exists>e. matching db granuleId workflowName e) \<longrightarrow>
      newestExecutionArnFromGranuleIdWorkflowName db granuleId workflowName
        = Inl (RecordDoesNotExist (''No executionArns found for granuleId:'' @ granuleId
                 @ '' running workflow:'' @ workflowName)))"
proof (cases "orderBy_timestamp_desc (joined_rows db [granuleId] [workflowName])")
  case Nil
  then have "joined_rows db [granuleId] [workflowName] = []"
    by (simp add: orderBy_timestamp_desc_Nil)
  then have none: "\<not> (\<exists>e. matching db granuleId workflowName e)"
    using set_joined_rows [of db granuleId workflowName] by auto
  show ?thesis
    using none Nil
    by (simp add: newestExecutionArnFromGranuleIdWorkflowName_def
        executionArnsFromGranuleIdsAndWorkflowNames_def)
next
  case (Cons e rest)
  from orderBy_head_greatest [OF Cons]
  have e: "matching db granuleId workflowName e"
    and top: "\<forall>e'. matching db granuleId workflowName e' \<longrightarrow> ex_timestamp e' \<le> ex_timestamp e"
    using set_joined_rows [of db granuleId workflowName] by auto
  have "newestExecutionArnFromGranuleIdWorkflowName db granuleId workflowName = Inr (ex_arn e)"
    using Cons
    by (simp add: newestExecutionArnFromGranuleIdWorkflowName_def
        executionArnsFromGranuleIdsAndWorkflowNames_def)
  with e top show ?thesis by auto
qed

theorem newestExecutionArn_witness:
  "newestExecutionArnFromGranuleIdWorkflowName example_catalog ''G'' ''W'' = Inr ''arn2''
   \<and> newestExecutionArnFromGranuleIdWorkflowName example_catalog ''G'' ''X''
       = Inl (RecordDoesNotExist ''No executionArns found for granuleId:G running workflow:X'')"
proof -
  let ?e2 = "\<lparr>ex_cumulus_id = 2, ex_arn = ''arn2'', ex_workflow_name = ''W'',
               ex_timestamp = (30::int)\<rparr>"
  have m: "\<And>e. matching example_catalog ''G'' ''W'' e \<longleftrightarrow>
      e = \<lparr>ex_cumulus_id = 1, ex_arn = ''arn1'', ex_workflow_name = ''W'', ex_timestamp = 10\<rparr>
      \<or> e = ?e2"
    by (auto simp: matching_def example_catalog_def)
  have some: "\<exists>e. matching example_catalog ''G'' ''W'' e"
    using m by blast
  have none: "\<not> (\<exists>e. matching example_catalog ''G'' ''X'' e)"
    by (auto simp: matching_def example_catalog_def)
  from newestExecutionArn_greatest_or_RecordDoesNotExist [of example_catalog "''G''" "''W''"] some
  obtain e where e: "matching example_catalog ''G'' ''W'' e"
    and r: "newestExecutionArnFromGranuleIdWorkflowName example_catalog ''G'' ''W'' = Inr (ex_arn e)"
    and top: "\<forall>e'. matching example_catalog ''G'' ''W'' e' \<longrightarrow> ex_timestamp e' \<le> ex_timestamp e"
    by blast
  have "matching example_catalog ''G'' ''W'' ?e2"
    using m by blast
  with top have le: "ex_timestamp ?e2 \<le> ex_timestamp e"
    by blast
  from e m have "e = \<lparr>ex_cumulus_id = 1, ex_arn = ''arn1'', ex_workflow_name = ''W'',
                     ex_timestamp = 10\<rparr> \<or> e = ?e2"
    by blast
  with le have "e = ?e2"
    by (elim disjE) simp_all
  with r have first: "newestExecutionArnFromGranuleIdWorkflowName example_catalog ''G'' ''W'' = Inr ''arn2''"
    by simp
  from newestExecutionArn_greatest_or_RecordDoesNotExist [of example_catalog "''G''" "''X''"] none
  have "newestExecutionArnFromGranuleIdWorkflowName example_catalog ''G'' ''X''
       = Inl (RecordDoesNotExist (''No executionArns found for granuleId:'' @ ''G''
                 @ '' running workflow:'' @ ''X''))"
    by blast
  with first show ?thesis by simp
qed

section \<open>Shared event source mappings\<close>

lemma truthy_isEventSourceMappingShared:
  "truthy (isEventSourceMappingShared rulesTable item eventType)
     \<longleftrightarrow> (\<exists>r \<in> set rulesTable. scan_filter item eventType r)"
  by (auto simp: isEventSourceMappingShared_def scan_Count_def js_and_def Let_def
      filter_empty_conv)

text \<open>
  C9, as the claim states it, fails: with rule \<open>ruleA\<close> enabled and a second rule \<open>ruleB\<close>
  of the same type and the same mapping UUID \<^emph>\<open>disabled\<close>, the check on \<open>ruleA\<close> returns
  \<open>true\<close> and the mapping is kept, although no other enabled rule shares it.
\<close>

theorem isEventSourceMappingShared_disabled_rule_counterexample:
  "truthy (isEventSourceMappingShared
             [kinesisRule ''ruleA'' ''ENABLED'', kinesisRule ''ruleB'' ''DISABLED'']
             (kinesisRule ''ruleA'' ''ENABLED'') Arn)
   \<and> \<not> other_enabled_rule_shares
             [kinesisRule ''ruleA'' ''ENABLED'', kinesisRule ''ruleB'' ''DISABLED'']
             (kinesisRule ''ruleA'' ''ENABLED'') Arn
   \<and> deleteKinesisEventSource
             [kinesisRule ''ruleA'' ''ENABLED'', kinesisRule ''ruleB'' ''DISABLED'']
             (kinesisRule ''ruleA'' ''ENABLED'') Arn = []"
  by (simp add: isEventSourceMappingShared_def scan_Count_def scan_filter_def js_and_def
      other_enabled_rule_shares_def deleteKinesisEventSource_def kinesisRule_def)

text \<open>
  C9, amended. For a rule item that carries the mapping identifier of the event type,
  \<open>isEventSourceMappingShared\<close> returns a truthy value exactly when the table holds
  another rule (a different name, in any state) with the same rule type and the same
  mapping identifier; \<open>deleteKinesisEventSource\<close> deletes the event source mapping exactly
  when the check is falsy, so in particular never while another enabled rule shares it.
\<close>

theorem isEventSourceMappingShared_iff_other_rule:
  assumes "eventMapping eventType item = Some uuid"
  shows "(truthy (isEventSourceMappingShared rulesTable item eventType)
            \<longleftrightarrow> other_rule_shares rulesTable item eventType)
       \<and> (deleteKinesisEventSource rulesTable item eventType \<noteq> []
            \<longleftrightarrow> \<not> truthy (isEventSourceMappingShared rulesTable item eventType))
       \<and> (other_enabled_rule_shares rulesTable item eventType
            \<longrightarrow> deleteKinesisEventSource rulesTable item eventType = [])"
  using assms
  by (auto simp: truthy_isEventSourceMappingShared scan_filter_def other_rule_shares_def
      other_enabled_rule_shares_def deleteKinesisEventSource_def)

theorem isEventSourceMappingShared_witness:
  "eventMapping Arn (kinesisRule ''ruleA'' ''ENABLED'') = Some ''uuid-1''
   \<and> truthy (isEventSourceMappingShared
        [kinesisRule ''ruleA'' ''ENABLED'', kinesisRule ''ruleB'' ''DISABLED'']
        (kinesisRule ''ruleA'' ''ENABLED'') Arn)
   \<and> deleteKinesisEventSource [kinesisRule ''ruleA'' ''ENABLED'']
        (kinesisRule ''ruleA'' ''ENABLED'') Arn \<noteq> []"
proof -
  let ?a = "kinesisRule ''ruleA'' ''ENABLED''"
  let ?b = "kinesisRule ''ruleB'' ''DISABLED''"
  have h: "eventMapping Arn ?a = Some ''uuid-1''"
    by (simp add: kinesisRule_def)
  have other: "other_rule_shares [?a, ?b] ?a Arn"
    by (simp add: other_rule_shares_def kinesisRule_def)
  have alone: "\<not> other_rule_shares [?a] ?a Arn"
    by (simp add: other_rule_shares_def)
  have shared: "truthy (isEventSourceMappingShared [?a, ?b] ?a Arn)"
    using isEventSourceMappingShared_iff_other_rule [OF h, of "[?a, ?b]"] other by blast
  have deleted: "deleteKinesisEventSource [?a] ?a Arn \<noteq> []"
    using isEventSourceMappingShared_iff_other_rule [OF h, of "[?a]"] alone by blast
  from h shared deleted show ?thesis by blast
qed

section \<open>Bulk delete\<close>

lemma rejections_append: "rejections (xs @ ys) = rejections xs @ rejections ys"
  by (induction xs rule: rejections.induct) auto

lemma pMap_run_append:
  "pMap_run (xs @ ys) mapper False s =
     (case pMap_run xs mapper False s of
        (rs, s1) \<Rightarrow> (case pMap_run ys mapper False s1 of (rs', s2) \<Rightarrow> (rs @ rs', s2)))"
  by (induction xs arbitrary: s) (auto split: prod.splits sum.splits)

lemma pMap_run_Cons_False:
  "pMap_run (x # xs) mapper False s =
     (case mapper x s of
        (r, s1) \<Rightarrow> (case pMap_run xs mapper False s1 of (rs, s2) \<Rightarrow> (r # rs, s2)))"
  by (auto split: prod.splits sum.splits)

lemma bulkGranuleDelete_mapper_published:
  assumes "collectionPgModel_get c (bg_collectionId granule) s1 = Inr collection"
      and "getGranuleByUniqueColumns c (bg_granuleId granule) (col_cumulus_id collection) s1
             = Inr pgGranule"
      and "pg_published pgGranule"
  shows "bulkGranuleDelete_mapper c True granule (s1, deleted1) =
     (case unpublishGranule c pgGranule s1 of
        (Inl error, s2) \<Rightarrow> (Inl error, (s2, deleted1))
      | (Inr pgGranule', s2) \<Rightarrow>
          (case deleteGranuleAndFiles c pgGranule' s2 of
             (Inl error, s3) \<Rightarrow> (Inl error, (s3, deleted1))
           | (Inr u, s3) \<Rightarrow> (Inr (), (s3, deleted1 @ [bg_granuleId granule]))))"
  using assms by (simp add: bulkGranuleDelete_mapper_def split: prod.splits sum.splits)

text \<open>
  C8. In a bulk delete with force-removal requested, take any item whose granule row is
  found and is marked published. The unpublish function is called on it first. When it
  throws, the item ends with that error in exactly the state the unpublish function left:
  \<open>deleteGranuleAndFiles\<close> is not run for it and it is not added to the deleted list; every
  later item is still processed, from that state, and the call as a whole rejects with
  the aggregate of the errors. When it returns, \<open>deleteGranuleAndFiles\<close> runs afterwards,
  on the record and in the state the unpublish function returned.
\<close>

theorem bulkGranuleDelete_unpublish_failure_isolated:
  assumes payload: "getGranulesForPayload c payload s0 = Inr (before @ granule # after)"
      and knex: "getKnexClient c s0 = Inr ()"
      and force: "pl_forceRemoveFromCmr payload = Some True"
      and before: "pMap_run before (bulkGranuleDelete_mapper c True) False (s0, [])
                     = (rs1, (s1, deleted1))"
      and collection: "collectionPgModel_get c (bg_collectionId granule) s1 = Inr collection"
      and pg: "getGranuleByUniqueColumns c (bg_granuleId granule) (col_cumulus_id collection) s1
                 = Inr pgGranule"
      and published: "pg_published pgGranule"
  shows "(case unpublishGranule c pgGranule s1 of
            (Inl error, s2) \<Rightarrow>
               bulkGranuleDelete_mapper c True granule (s1, deleted1) = (Inl error, (s2, deleted1))
               \<and> (case pMap_run after (bulkGranuleDelete_mapper c True) False (s2, deleted1) of
                    (rs3, (s3, deleted3)) \<Rightarrow>
                       bulkGranuleDelete c payload s0 =
                         (Inl (AggregateError (rejections rs1 @ error # rejections rs3)), s3))
          | (Inr pgGranule', s2) \<Rightarrow>
               bulkGranuleDelete_mapper c True granule (s1, deleted1) =
                 (case deleteGranuleAndFiles c pgGranule' s2 of
                    (Inl error, s3) \<Rightarrow> (Inl error, (s3, deleted1))
                  | (Inr u, s3) \<Rightarrow> (Inr (), (s3, deleted1 @ [bg_granuleId granule]))))"
proof (cases "unpublishGranule c pgGranule s1")
  case (Pair r s2)
  note step = bulkGranuleDelete_mapper_published [OF collection pg published, of deleted1]
  show ?thesis
  proof (cases r)
    case (Inr pgGranule')
    with Pair step show ?thesis by simp
  next
    case (Inl error)
    with Pair step
    have one: "bulkGranuleDelete_mapper c True granule (s1, deleted1) = (Inl error, (s2, deleted1))"
      by simp
    obtain rs3 s3 deleted3
      where rest: "pMap_run after (bulkGranuleDelete_mapper c True) False (s2, deleted1)
                     = (rs3, (s3, deleted3))"
      by (metis prod.exhaust)
    have run: "pMap_run (before @ granule # after) (bulkGranuleDelete_mapper c True) False (s0, [])
                 = (rs1 @ Inl error # rs3, (s3, deleted3))"
      by (simp add: pMap_run_append before pMap_run_Cons_False one rest
          del: pMap_run.simps)
    have "bulkGranuleDelete c payload s0 =
            (Inl (AggregateError (rejections rs1 @ error # rejections rs3)), s3)"
    proof (cases "rejections rs1")
      case Nil
      then show ?thesis
        by (simp add: bulkGranuleDelete_def payload knex force pMap_def run rejections_append)
    next
      case (Cons e es)
      then show ?thesis
        by (simp add: bulkGranuleDelete_def payload knex force pMap_def run rejections_append)
    qed
    with Pair Inl one rest show ?thesis by simp
  qed
qed

lemmas example_defs =
  example_collaborators_def example_store_def example_row_def example_granule_def
  example_payload_def

theorem bulkGranuleDelete_unpublish_witness:
  "bulkGranuleDelete (example_collaborators [''G2''])
       (example_payload [example_granule ''G1'', example_granule ''G2'', example_granule ''G3''])
       example_store
     = (Inl (AggregateError [Error ''CMR unavailable'']),
        \<lparr>st_catalog = [example_row 12 ''G2'' True, example_row 14 ''G4'' False,
                       example_row 15 ''G5'' False],
         st_index = [''G2'', ''G4'', ''G5''], st_queued = [], st_started = []\<rparr>)
   \<and> bulkGranuleDelete_mapper (example_collaborators []) True (example_granule ''G2'')
       (example_store, [])
     = (Inr (),
        (\<lparr>st_catalog = [example_row 11 ''G1'' True, example_row 13 ''G3'' False,
                        example_row 14 ''G4'' False, example_row 15 ''G5'' False],
          st_index = [''G1'', ''G3'', ''G4'', ''G5''], st_queued = [], st_started = []\<rparr>,
         [''G2'']))"
proof -
  let ?c = "example_collaborators [''G2'']"
  let ?p = "example_payload [example_granule ''G1'', example_granule ''G2'', example_granule ''G3'']"
  let ?s1 = "\<lparr>st_catalog = [example_row 12 ''G2'' True, example_row 13 ''G3'' False,
                    example_row 14 ''G4'' False, example_row 15 ''G5'' False],
      st_index = [''G2'', ''G3'', ''G4'', ''G5''], st_queued = [], st_started = []\<rparr>"
  have payload: "getGranulesForPayload ?c ?p example_store
      = Inr ([example_granule ''G1''] @ example_granule ''G2'' # [example_granule ''G3''])"
    by (simp add: example_defs)
  have knex: "getKnexClient ?c example_store = Inr ()"
    by (simp add: example_defs)
  have force: "pl_forceRemoveFromCmr ?p = Some True"
    by (simp add: example_defs)
  have before: "pMap_run [example_granule ''G1''] (bulkGranuleDelete_mapper ?c True) False
      (example_store, []) = ([Inr ()], (?s1, [''G1'']))"
    by (simp add: example_defs bulkGranuleDelete_mapper_def)
  have collection: "collectionPgModel_get ?c (bg_collectionId (example_granule ''G2'')) ?s1
      = Inr \<lparr>col_cumulus_id = 7\<rparr>"
    by (simp add: example_defs)
  have pg: "getGranuleByUniqueColumns ?c (bg_granuleId (example_granule ''G2''))
      (col_cumulus_id \<lparr>col_cumulus_id = 7\<rparr>) ?s1 = Inr (example_row 12 ''G2'' True)"
    by (simp add: example_defs)
  have published: "pg_published (example_row 12 ''G2'' True)"
    by (simp add: example_defs)
  have fails: "unpublishGranule ?c (example_row 12 ''G2'' True) ?s1
      = (Inl (Error ''CMR unavailable''), ?s1)"
    by (simp add: example_defs)
  have rest: "pMap_run [example_granule ''G3''] (bulkGranuleDelete_mapper ?c True) False
      (?s1, [''G1''])
      = ([Inr ()],
         (\<lparr>st_catalog = [example_row 12 ''G2'' True, example_row 14 ''G4'' False,
                         example_row 15 ''G5'' False],
           st_index = [''G2'', ''G4'', ''G5''], st_queued = [], st_started = []\<rparr>,
          [''G1'', ''G3'']))"
    by (simp add: example_defs bulkGranuleDelete_mapper_def)
  have first: "bulkGranuleDelete ?c ?p example_store
     = (Inl (AggregateError [Error ''CMR unavailable'']),
        \<lparr>st_catalog = [example_row 12 ''G2'' True, example_row 14 ''G4'' False,
                       example_row 15 ''G5'' False],
         st_index = [''G2'', ''G4'', ''G5''], st_queued = [], st_started = []\<rparr>)"
    using bulkGranuleDelete_unpublish_failure_isolated
      [where after = "[example_granule ''G3'']", OF payload knex force before collection pg published]
    by (simp add: fails rest del: pMap_run.simps)
  let ?d = "example_collaborators []"
  have payload': "getGranulesForPayload ?d (example_payload [example_granule ''G2'']) example_store
      = Inr ([] @ example_granule ''G2'' # [])"
    by (simp add: example_defs)
  have knex': "getKnexClient ?d example_store = Inr ()"
    by (simp add: example_defs)
  have force': "pl_forceRemoveFromCmr (example_payload [example_granule ''G2'']) = Some True"
    by (simp add: example_defs)
  have before': "pMap_run [] (bulkGranuleDelete_mapper ?d True) False (example_store, [])
      = ([], (example_store, []))"
    by simp
  have collection': "collectionPgModel_get ?d (bg_collectionId (example_granule ''G2''))
      example_store = Inr \<lparr>col_cumulus_id = 7\<rparr>"
    by (simp add: example_defs)
  have pg': "getGranuleByUniqueColumns ?d (bg_granuleId (example_granule ''G2''))
      (col_cumulus_id \<lparr>col_cumulus_id = 7\<rparr>) example_store = Inr (example_row 12 ''G2'' True)"
    by (simp add: example_defs)
  have succeeds: "unpublishGranule ?d (example_row 12 ''G2'' True) example_store
      = (Inr (example_row 12 ''G2'' False),
         \<lparr>st_catalog = [example_row 11 ''G1'' True, example_row 12 ''G2'' False,
                        example_row 13 ''G3'' False, example_row 14 ''G4'' False,
                        example_row 15 ''G5'' False],
          st_index = [''G1'', ''G2'', ''G3'', ''G4'', ''G5''], st_queued = [],
          st_started = []\<rparr>)"
    by (simp add: example_defs)
  have deletes: "deleteGranuleAndFiles ?d (example_row 12 ''G2'' False)
         \<lparr>st_catalog = [example_row 11 ''G1'' True, example_row 12 ''G2'' False,
                        example_row 13 ''G3'' False, example_row 14 ''G4'' False,
                        example_row 15 ''G5'' False],
          st_index = [''G1'', ''G2'', ''G3'', ''G4'', ''G5''], st_queued = [],
          st_started = []\<rparr>
      = (Inr (),
         \<lparr>st_catalog = [example_row 11 ''G1'' True, example_row 13 ''G3'' False,
                        example_row 14 ''G4'' False, example_row 15 ''G5'' False],
          st_index = [''G1'', ''G3'', ''G4'', ''G5''], st_queued = [], st_started = []\<rparr>)"
    by (simp add: example_defs)
  have second: "bulkGranuleDelete_mapper ?d True (example_granule ''G2'') (example_store, [])
     = (Inr (),
        (\<lparr>st_catalog = [example_row 11 ''G1'' True, example_row 13 ''G3'' False,
                        example_row 14 ''G4'' False, example_row 15 ''G5'' False],
          st_index = [''G1'', ''G3'', ''G4'', ''G5''], st_queued = [], st_started = []\<rparr>,
         [''G2'']))"
    using bulkGranuleDelete_unpublish_failure_isolated
      [where after = "[]", OF payload' knex' force' before' collection' pg' published]
    by (simp add: succeeds deletes example_granule_def del: pMap_run.simps)
  from first second show ?thesis by blast
qed

section \<open>Bulk apply-workflow and bulk reingest\<close>

lemma applyWorkflowToGranules_mapper_never_rejects:
  "\<exists>entry s'. applyWorkflowToGranules_mapper c workflowName meta queueUrl granule s
                 = (Inr entry, s') \<and> entry_granuleId entry = bg_granuleId granule"
  by (auto simp: applyWorkflowToGranules_mapper_def split: sum.splits prod.splits)

lemma pMap_run_never_rejects:
  assumes "\<And>x s. x \<in> set xs \<Longrightarrow> \<exists>v s'. mapper x s = (Inr v, s') \<and> key v = label x"
  shows "\<exists>vs s'. pMap_run xs mapper stopOnError s = (map Inr vs, s') \<and> map key vs = map label xs"
  using assms
proof (induction xs arbitrary: s)
  case Nil
  then show ?case by simp
next
  case (Cons x xs)
  from Cons.prems [of x s] obtain v s1 where v: "mapper x s = (Inr v, s1)" "key v = label x"
    by auto
  from Cons.IH [of s1] Cons.prems
  obtain vs s2 where vs: "pMap_run xs mapper stopOnError s1 = (map Inr vs, s2)"
      "map key vs = map label xs"
    by auto
  have "pMap_run (x # xs) mapper stopOnError s = (map Inr (v # vs), s2)"
    using v vs by simp
  moreover have "map key (v # vs) = map label (x # xs)"
    using v vs by simp
  ultimately show ?case by blast
qed

lemma rejections_map_Inr: "rejections (map Inr vs) = []"
  by (induction vs) auto

lemma fulfilments_map_Inr: "fulfilments (map Inr vs) = vs"
  by (induction vs) auto

lemma applyWorkflowToGranules_one_entry_per_granule:
  "\<exists>entries s'. applyWorkflowToGranules c granules workflowName meta queueUrl s
                   = (Inr entries, s')
     \<and> map entry_granuleId entries = map bg_granuleId granules"
proof -
  from pMap_run_never_rejects
    [of granules "applyWorkflowToGranules_mapper c workflowName meta queueUrl"
        entry_granuleId bg_granuleId True s]
    applyWorkflowToGranules_mapper_never_rejects [of c workflowName meta queueUrl]
  obtain vs s' where
    "pMap_run granules (applyWorkflowToGranules_mapper c workflowName meta queueUrl) True s
       = (map Inr vs, s')" "map entry_granuleId vs = map bg_granuleId granules"
    by blast
  then show ?thesis
    by (simp add: applyWorkflowToGranules_def pMap_def rejections_map_Inr fulfilments_map_Inr)
qed

lemma set_rejections_Cons: "set (rejections rs) \<subseteq> set (rejections (r # rs))"
  by (cases r) auto

lemma pMap_run_False_rejection:
  assumes "x \<in> set xs" and "\<And>s. \<exists>s'. mapper x s = (Inl e, s')"
  shows "e \<in> set (rejections (fst (pMap_run xs mapper False s)))"
  using assms(1)
proof (induction xs arbitrary: s)
  case Nil
  then show ?case by simp
next
  case (Cons y ys)
  obtain r s1 where step: "mapper y s = (r, s1)"
    by (metis prod.exhaust)
  obtain rs s2 where rest: "pMap_run ys mapper False s1 = (rs, s2)"
    by (metis prod.exhaust)
  have run: "pMap_run (y # ys) mapper False s = (r # rs, s2)"
    by (simp add: pMap_run_Cons_False step rest del: pMap_run.simps)
  show ?case
  proof (cases "x = y")
    case True
    from assms(2) [of s] True step have "r = Inl e" by auto
    with run show ?thesis by simp
  next
    case False
    with Cons.prems have "x \<in> set ys" by simp
    from Cons.IH [OF this, of s1] rest have "e \<in> set (rejections rs)" by simp
    with set_rejections_Cons [of rs r] run show ?thesis by auto
  qed
qed

lemma bulkGranuleReingest_rejects_when_collection_lookup_fails:
  assumes "getGranulesForPayload c payload s = Inr granules"
      and "getKnexClient c s = Inr ()"
      and "granule \<in> set granules"
      and "\<And>s'. collectionPgModel_get c (bg_collectionId granule) s' = Inl e"
  shows "\<exists>errors s'. bulkGranuleReingest c payload s = (Inl (AggregateError errors), s')
           \<and> e \<in> set errors"
proof -
  let ?m = "bulkGranuleReingest_mapper c (pl_workflowName payload)"
  have "\<And>s. \<exists>s'. ?m granule s = (Inl e, s')"
    by (simp add: bulkGranuleReingest_mapper_def assms(4))
  from pMap_run_False_rejection [where mapper = ?m and e = e, OF assms(3) this, of s]
  have e: "e \<in> set (rejections (fst (pMap_run granules ?m False s)))" .
  obtain rs s' where run: "pMap_run granules ?m False s = (rs, s')"
    by (metis prod.exhaust)
  with e obtain x xs where "rejections rs = x # xs" "e \<in> set (x # xs)"
    by (cases "rejections rs") auto
  then show ?thesis
    by (simp add: bulkGranuleReingest_def assms(1,2) pMap_def run)
qed

text \<open>
  C7 does not hold of \<open>bulkGranuleReingest\<close>. Five granules, the third naming a collection
  that does not exist: the reingest runner processes the other four and then rejects with
  an \<open>AggregateError\<close>, so no list of entries is returned, while \<open>applyWorkflowToGranules\<close>
  on the same input returns five entries, the third carrying the error.
\<close>

theorem bulkGranuleReingest_item3_collection_failure:
  "bulkGranuleReingest (example_collaborators []) (example_payload five_granules) example_store
     = (Inl (AggregateError [RecordDoesNotExist ''collection'']),
        example_store\<lparr>st_queued := [''G1'', ''G2'', ''G4'', ''G5''],
                      st_started := [''G1'', ''G2'', ''G4'', ''G5'']\<rparr>)
   \<and> applyWorkflowToGranules (example_collaborators []) five_granules ''W'' None None example_store
     = (Inr [GranuleId ''G1'', GranuleId ''G2'',
             GranuleErr ''G3'' (RecordDoesNotExist ''collection''),
             GranuleId ''G4'', GranuleId ''G5''],
        example_store\<lparr>st_queued := [''G1'', ''G2'', ''G4'', ''G5''],
                      st_started := [''G1'', ''G2'', ''G4'', ''G5'']\<rparr>)"
  by (simp add: bulkGranuleReingest_def applyWorkflowToGranules_def pMap_def
      bulkGranuleReingest_mapper_def applyWorkflowToGranules_mapper_def five_granules_def
      example_defs)

section \<open>Deleting an execution\<close>

lemma recreate_deleted: "recreate arn (records arn) (records(arn := None)) = records"
  by (cases "records arn") (auto simp: recreate_def)

lemma recreate_kept: "recreate arn (records arn) records = records"
  by (cases "records arn") (auto simp: recreate_def)

lemma del_rejects_unchanged:
  assumes "del faults arn s = (Inl error, s')"
  shows "s' = s"
proof (cases "sto_catalog s arn = None \<and> sto_legacy s arn = None \<and> sto_index s arn = None")
  case True
  with assms show ?thesis by (simp add: del_def)
next
  case False
  show ?thesis
  proof (cases "faults CatalogRemoval")
    case (Some e)
    with assms False show ?thesis
      by (auto simp: del_def createRejectableTransaction_def del_transaction_def
          store_delete_def recreate_kept)
  next
    case None
    note cat = this
    show ?thesis
    proof (cases "faults LegacyRemoval")
      case (Some e)
      with assms False cat show ?thesis
        by (auto simp: del_def createRejectableTransaction_def del_transaction_def
            store_delete_def recreate_kept)
    next
      case None
      note leg = this
      show ?thesis
      proof (cases "faults IndexRemoval")
        case (Some e)
        with assms False cat leg show ?thesis
          by (auto simp: del_def createRejectableTransaction_def del_transaction_def
              store_delete_def recreate_deleted)
      next
        case None
        with assms False cat leg show ?thesis
          by (auto simp: del_def createRejectableTransaction_def del_transaction_def
              store_delete_def)
      qed
    qed
  qed
qed

lemma del_inject_rejects:
  assumes "present_somewhere arn s"
  shows "fst (del (inject step error) arn s) = Inl error"
  using assms
  by (cases step)
    (auto simp: del_def inject_def createRejectableTransaction_def del_transaction_def
      store_delete_def present_somewhere_def)

text \<open>
  C1. Whenever the delete rejects, whatever the fault plan, all three stores are exactly
  as they were before the call. With a failure injected at any one of the three removal
  steps and the record held by at least one store, the delete rejects with the injected
  error, so every store that held the record still holds it.
\<close>

theorem del_failure_keeps_all_stores:
  "(\<forall>error s'. del faults arn s = (Inl error, s') \<longrightarrow> s' = s)
   \<and> (present_somewhere arn s \<longrightarrow> del (inject step error) arn s = (Inl error, s))"
proof -
  have "del (inject step error) arn s = (Inl error, s)" if "present_somewhere arn s"
  proof -
    obtain r s' where r: "del (inject step error) arn s = (r, s')"
      by (metis prod.exhaust)
    with del_inject_rejects [OF that, of step error] have "r = Inl error" by simp
    with r del_rejects_unchanged [of "inject step error" arn s error s'] show ?thesis by simp
  qed
  with del_rejects_unchanged show ?thesis by blast
qed

theorem del_failure_witness:
  "present_somewhere ''arn1'' example_stores
   \<and> del (inject CatalogRemoval (Error ''something bad'')) ''arn1'' example_stores
       = (Inl (Error ''something bad''), example_stores)
   \<and> del (inject LegacyRemoval (Error ''something bad'')) ''arn1'' example_stores
       = (Inl (Error ''something bad''), example_stores)
   \<and> del (inject IndexRemoval (Error ''something bad'')) ''arn1'' example_stores
       = (Inl (Error ''something bad''), example_stores)
   \<and> sto_catalog example_stores ''arn1'' = Some ''pg1''
   \<and> sto_legacy example_stores ''arn1'' = Some ''dynamo1''
   \<and> sto_index example_stores ''arn1'' = Some ''es1''
   \<and> present_somewhere ''arn3'' example_stores
   \<and> del (inject IndexRemoval (Error ''something bad'')) ''arn3'' example_stores
       = (Inl (Error ''something bad''), example_stores)
   \<and> sto_index example_stores ''arn3'' = Some ''es3''"
proof -
  have p1: "present_somewhere ''arn1'' example_stores"
    by (simp add: present_somewhere_def example_stores_def)
  have p3: "present_somewhere ''arn3'' example_stores"
    by (simp add: present_somewhere_def example_stores_def)
  have r1: "\<And>step. del (inject step (Error ''something bad'')) ''arn1'' example_stores
       = (Inl (Error ''something bad''), example_stores)"
    using del_failure_keeps_all_stores
      [of "inject CatalogRemoval (Error ''something bad'')" "''arn1''" example_stores] p1
    by blast
  have r3: "del (inject IndexRemoval (Error ''something bad'')) ''arn3'' example_stores
       = (Inl (Error ''something bad''), example_stores)"
    using del_failure_keeps_all_stores
      [of "inject IndexRemoval (Error ''something bad'')" "''arn3''" example_stores] p3
    by blast
  from p1 p3 r1 r3 show ?thesis
    by (simp add: example_stores_def)
qed

section \<open>Granule upsert inside a transaction\<close>

text \<open>
  C6, as the claim states it, fails when the granule row was already in the catalog: the
  call rejects and the row is still there afterwards, as it was before.
\<close>

theorem upsert_join_failure_counterexample:
  "fst (upsert_in_transaction example_granules_db example_postgres_granule 22
          example_granulePgModel_upsert failing_granulesExecutionsPgModel_upsert)
     = Inl (Error ''error'')
   \<and> granule_exists
        (snd (upsert_in_transaction example_granules_db example_postgres_granule 22
                example_granulePgModel_upsert failing_granulesExecutionsPgModel_upsert))
        ''G1'' 7"
  by (simp add: upsert_in_transaction_def createRejectableTransaction_def
      upsertGranuleWithExecutionJoinRecord_def example_granulePgModel_upsert_def
      failing_granulesExecutionsPgModel_upsert_def example_granules_db_def
      example_postgres_granule_def example_row_def granule_exists_def Let_def)

text \<open>
  C6, amended. When the granule upsert succeeds and the join-record upsert then fails
  inside the transaction, the whole operation rejects with the join upsert's error, and
  the catalog afterwards is exactly the catalog before the call: nothing the call wrote is
  persisted.
\<close>

theorem upsert_join_failure_rolls_back:
  assumes "granulePgModel_upsert granule executionCumulusId db = (Inr pgGranule, db1)"
      and "granulesExecutionsPgModel_upsert
             \<lparr>ge_granule_cumulus_id = pg_cumulus_id pgGranule,
              ge_execution_cumulus_id = executionCumulusId\<rparr> db1 = (Inl error, db2)"
  shows "upsert_in_transaction db granule executionCumulusId
           granulePgModel_upsert granulesExecutionsPgModel_upsert = (Inl error, db)"
  using assms
  by (simp add: upsert_in_transaction_def createRejectableTransaction_def
      upsertGranuleWithExecutionJoinRecord_def)

theorem upsert_join_failure_witness:
  "upsert_in_transaction empty_granules_db example_postgres_granule 22
      example_granulePgModel_upsert failing_granulesExecutionsPgModel_upsert
     = (Inl (Error ''error''), empty_granules_db)
   \<and> \<not> granule_exists empty_granules_db ''G1'' 7
   \<and> \<not> join_exists_for_execution empty_granules_db 22"
proof -
  let ?row = "\<lparr>pg_cumulus_id = 100, pg_granule_id = ''G1'', pg_collection_cumulus_id = 7,
               pg_status = ''running'', pg_published = False\<rparr>"
  let ?db1 = "\<lparr>gdb_granules = [?row], gdb_granules_executions = []\<rparr>"
  have g: "example_granulePgModel_upsert example_postgres_granule 22 empty_granules_db
      = (Inr ?row, ?db1)"
    by (simp add: example_granulePgModel_upsert_def example_postgres_granule_def
        empty_granules_db_def Let_def)
  have j: "failing_granulesExecutionsPgModel_upsert
      \<lparr>ge_granule_cumulus_id = pg_cumulus_id ?row, ge_execution_cumulus_id = 22\<rparr> ?db1
      = (Inl (Error ''error''), ?db1)"
    by (simp add: failing_granulesExecutionsPgModel_upsert_def)
  have "upsert_in_transaction empty_granules_db example_postgres_granule 22
      example_granulePgModel_upsert failing_granulesExecutionsPgModel_upsert
     = (Inl (Error ''error''), empty_granules_db)"
    using upsert_join_failure_rolls_back
      [where granulePgModel_upsert = example_granulePgModel_upsert
         and granulesExecutionsPgModel_upsert = failing_granulesExecutionsPgModel_upsert
         and granule = example_postgres_granule and executionCumulusId = 22
         and db = empty_granules_db, OF g j] .
  moreover have "\<not> granule_exists empty_granules_db ''G1'' 7"
    by (simp add: granule_exists_def empty_granules_db_def)
  moreover have "\<not> join_exists_for_execution empty_granules_db 22"
    by (simp add: join_exists_for_execution_def empty_granules_db_def)
  ultimately show ?thesis by blast
qed

end
